theory Spec2Isabelle
  imports Main
begin

section \<open>Data model of \<open>src/web.ts\<close>\<close>

text \<open>
  The class \<open>BarcodeScannerWeb\<close> keeps its session in private fields and drives three
  asynchronous collaborators: the platform's camera (\<open>getUserMedia\<close>), the playback
  element (\<open>video.play()\<close>) and the decoding engine (\<open>decodeFromVideoElement\<close> with its
  per-frame callback). The embedding is a state machine. One record holds the fields of the
  class together with the part of the platform the class mutates. An \<open>async\<close> member is
  cut at its \<open>await\<close>s on the collaborators, and the settling of each awaited operation is
  an event, as is each call of a public member. Between two events a body runs without
  interruption, as on the single-threaded event loop. An \<open>await\<close> on a promise of the
  class itself (\<open>await this._startVideo()\<close>, \<open>await this._videoPromise\<close>,
  \<open>await this._getVideoElement()\<close>) resumes in a promise job queued by the step that
  settles the promise, before the loop takes the next event; it belongs to that step.

  A leading underscore of a source name is dropped (\<open>_video_nonce\<close> is \<open>video_nonce\<close>,
  \<open>_stop\<close> is \<open>stop\<close>).
\<close>

datatype CameraDirection = FRONT | BACK

record ScanOptions =
  targetedFormats :: "string list option"
  cameraDirection :: "CameraDirection option"

text \<open>\<open>_FORWARD = { facingMode: 'user' }\<close> and \<open>_BACK = { facingMode: 'environment' }\<close>.\<close>

datatype MediaTrackConstraints = FORWARD_user | BACK_environment

text \<open>The exception classes of the engine that the frame callback tells apart by \<open>instanceof\<close>.\<close>

datatype Exception = NotFoundException | ChecksumException | FormatException
  | OtherException string

datatype err =
    ScanCanceled string
  | Error string
  | Unavailable string
  | Unimplemented string
  | GetUserMediaRejected
  | PlayRejected
  | EngineException Exception

text \<open>The engine's \<open>Result\<close>: what \<open>getText()\<close> and \<open>getBarcodeFormat()\<close> return.\<close>

record Result =
  getText :: string
  getBarcodeFormat :: nat

record IScanResultWithContent =
  hasContent :: bool
  content :: string
  format :: string

record TorchStateResult =
  isEnabled :: bool

text \<open>
  The \<open>video\<close> element built by \<open>_startVideo\<close>. \<open>vid\<close> is the identity of the object;
  \<open>mirrored\<close> stands for the \<open>scaleX(-1)\<close> style, \<open>inline_attrs\<close> for the three
  attributes set on Safari, \<open>srcObject\<close> for the attached stream.
\<close>

record VideoElement =
  vid :: nat
  mirrored :: bool
  inline_attrs :: bool
  srcObject :: "nat option"

text \<open>
  An \<open>IScannerControls\<close> object of the engine: whether the optional \<open>switchTorch\<close>
  member is present, whether the decode loop still runs, and the last torch request it
  received.
\<close>

record ScannerControls =
  has_switchTorch :: bool
  running :: bool
  torch :: bool

text \<open>
  The promise made by the closure of \<open>_getVideoElement\<close>, which runs \<open>_startVideo\<close>:
  suspended at the first \<open>getUserMedia\<close>, at the second one, at \<open>video.play()\<close>, or
  settled. The suspended states carry the locals of \<open>_startVideo\<close>: the captured
  \<open>video_nonce\<close>, the element, the requested constraints, the new stream.
\<close>

datatype acquisition =
    AwaitProbe nat
  | AwaitStream nat VideoElement MediaTrackConstraints
  | AwaitPlay nat VideoElement nat
  | Fulfilled
  | Rejected err

datatype caller = Prepare | StartScan | ResumeScanning

datatype val = Void | Scan IScanResultWithContent | Torch TorchStateResult

text \<open>
  The promise returned by one call of a public operation: suspended on \<open>_videoPromise\<close>,
  suspended on the scan promise that one run of \<open>_getFirstResultFromReader\<close> built (the
  number names that run), or settled.
\<close>

datatype call_state =
    AwaitVideo caller nat
  | AwaitResult caller nat
  | Returned val
  | Threw err

text \<open>
  The \<open>async\<close> executor of the scan promise of one run of \<open>_getFirstResultFromReader\<close>.
  It calls \<open>decodeFromVideoElement(video, callback)\<close> and is suspended on it; it ends by
  assigning the controls it got to \<open>_controls\<close>, or fails when the call rejects. The
  scan promise is settled by the callback alone, so the executor may still be suspended
  when the promise has settled and the caller has gone through its \<open>finally\<close>.
\<close>

datatype executor = AwaitControls VideoElement | Assigned nat | ExecutorFailed

record world =
  formats :: "nat list"
  controls :: "nat option"
  torchState :: bool
  video :: "VideoElement option"
  videoPromise :: "nat option"
  video_nonce :: nat
  options :: "ScanOptions option"
  backgroundColor :: "string option"
  facingMode :: MediaTrackConstraints
  mediaDevices :: bool
  safari :: bool
  BarcodeFormat_keys :: "string list"
  page_has_video_id :: bool
  root_backgroundColor :: string
  body_videos :: "nat list"
  streams :: "bool list list"
  ctrls :: "ScannerControls list"
  executors :: "executor list"
  promises :: "acquisition list"
  calls :: "call_state list"
  console :: "string list"

text \<open>
  The first nine fields are the private fields of the class. The others are the platform:
  whether \<open>navigator.mediaDevices.getUserMedia\<close> exists, whether the user agent is
  Safari, the keys of the engine's \<open>BarcodeFormat\<close> enum (the enum is declared in the
  engine, so it is a parameter here), whether the host page has an element of its own with
  id \<open>video\<close>, the root element's background colour, the video elements whose parent
  \<open>div\<close> is in the document body, every media stream handed out so far (one flag per
  track, \<open>True\<close> for \<open>readyState = live\<close>), every controls object handed out, the
  executor of every scan promise, every acquisition promise, the promise of every call, and
  the console.

  \<open>video_nonce\<close> is a JavaScript number that only ever grows by one from 0; it is exact
  below \<open>2 ^ 53\<close>, and is a \<open>nat\<close> here.
\<close>

definition initial :: "bool \<Rightarrow> bool \<Rightarrow> string list \<Rightarrow> bool \<Rightarrow> string \<Rightarrow> world" where
  "initial md sf ks pv bg =
     \<lparr>formats = [], controls = None, torchState = False, video = None,
      videoPromise = None, video_nonce = 0, options = None, backgroundColor = None,
      facingMode = BACK_environment, mediaDevices = md, safari = sf,
      BarcodeFormat_keys = ks, page_has_video_id = pv, root_backgroundColor = bg,
      body_videos = [], streams = [], ctrls = [], executors = [], promises = [],
      calls = [], console = []\<rparr>"

section \<open>Helpers at the end of the file: \<open>stopStream\<close>, \<open>stopVideo\<close>, \<open>_stop\<close>\<close>

definition stopStream :: "nat \<Rightarrow> world \<Rightarrow> world" where
  "stopStream sid w =
     (if sid < length (streams w)
      then w\<lparr>streams := (streams w)[sid := map (\<lambda>_. False) (streams w ! sid)]\<rparr>
      else w)"

text \<open>
  \<open>stopVideo\<close>: \<open>video.pause()\<close> (playback state is not part of the model), the tracks of
  \<open>srcObject\<close> are stopped when there is one, and the parent \<open>div\<close> leaves the document.
\<close>

definition stopVideo :: "VideoElement \<Rightarrow> world \<Rightarrow> world" where
  "stopVideo v w =
     (let w1 = (case srcObject v of None \<Rightarrow> w | Some sid \<Rightarrow> stopStream sid w)
      in w1\<lparr>body_videos := removeAll (vid v) (body_videos w1)\<rparr>)"

definition stop :: "world \<Rightarrow> world" where
  "stop w =
     (let w1 = (case video w of
                  None \<Rightarrow> w
                | Some v \<Rightarrow> (stopVideo v w)\<lparr>videoPromise := None, video := None\<rparr>)
      in w1\<lparr>video_nonce := video_nonce w1 + 1\<rparr>)"

section \<open>Synchronous public methods\<close>

definition controls_stop :: "nat \<Rightarrow> world \<Rightarrow> world" where
  "controls_stop c w =
     (if c < length (ctrls w)
      then w\<lparr>ctrls := (ctrls w)[c := (ctrls w ! c)\<lparr>running := False\<rparr>]\<rparr>
      else w)"

definition switchTorch :: "nat \<Rightarrow> bool \<Rightarrow> world \<Rightarrow> world" where
  "switchTorch c onOff w =
     (if c < length (ctrls w)
      then w\<lparr>ctrls := (ctrls w)[c := (ctrls w ! c)\<lparr>torch := onOff\<rparr>]\<rparr>
      else w)"

definition hideBackground :: "world \<Rightarrow> world" where
  "hideBackground w =
     w\<lparr>backgroundColor := Some (root_backgroundColor w),
       root_backgroundColor := ''transparent''\<rparr>"

definition showBackground :: "world \<Rightarrow> world" where
  "showBackground w =
     w\<lparr>root_backgroundColor := (case backgroundColor w of None \<Rightarrow> [] | Some c \<Rightarrow> c)\<rparr>"

definition pauseScanning :: "world \<Rightarrow> world" where
  "pauseScanning w =
     (case controls w of
        None \<Rightarrow> w
      | Some c \<Rightarrow> (controls_stop c w)\<lparr>controls := None\<rparr>)"

definition stopScan :: "world \<Rightarrow> world" where
  "stopScan w =
     (let w1 = stop w
      in case controls w1 of
           None \<Rightarrow> w1
         | Some c \<Rightarrow> (controls_stop c w1)\<lparr>controls := None\<rparr>)"

text \<open>The guard \<open>this._controls && this._controls.switchTorch\<close> of the three torch members.\<close>

definition torch_control :: "world \<Rightarrow> nat option" where
  "torch_control w =
     (case controls w of
        None \<Rightarrow> None
      | Some c \<Rightarrow> if c < length (ctrls w) \<and> has_switchTorch (ctrls w ! c) then Some c else None)"

definition disableTorch :: "world \<Rightarrow> world" where
  "disableTorch w =
     (case torch_control w of
        None \<Rightarrow> w
      | Some c \<Rightarrow> (switchTorch c False w)\<lparr>torchState := False\<rparr>)"

definition enableTorch :: "world \<Rightarrow> world" where
  "enableTorch w =
     (case torch_control w of
        None \<Rightarrow> w
      | Some c \<Rightarrow> (switchTorch c True w)\<lparr>torchState := True\<rparr>)"

definition toggleTorch :: "world \<Rightarrow> world" where
  "toggleTorch w =
     (case torch_control w of
        None \<Rightarrow> w
      | Some c \<Rightarrow> switchTorch c True w)"

definition getTorchState :: "world \<Rightarrow> TorchStateResult" where
  "getTorchState w = \<lparr>isEnabled = torchState w\<rparr>"

section \<open>The frame callback of \<open>_getFirstResultFromReader\<close>\<close>

text \<open>
  \<open>result.getBarcodeFormat().toString()\<close>: the enum value is a number, and
  \<open>toString\<close> writes it in decimal.
\<close>

fun toString :: "nat \<Rightarrow> string" where
  "toString n =
     (if n < 10 then [char_of (48 + n)]
      else toString (n div 10) @ [char_of (48 + n mod 10)])"

declare toString.simps [simp del]

text \<open>What one invocation of the callback does to the scan promise.\<close>

datatype settle = Ignore string | Resolve IScanResultWithContent | Reject err

definition name :: "Exception \<Rightarrow> string" where
  "name e =
     (case e of
        NotFoundException \<Rightarrow> ''NotFoundException''
      | ChecksumException \<Rightarrow> ''ChecksumException''
      | FormatException \<Rightarrow> ''FormatException''
      | OtherException n \<Rightarrow> n)"

definition recoverable :: "Exception \<Rightarrow> bool" where
  "recoverable e = (e = NotFoundException \<or> e = ChecksumException \<or> e = FormatException)"

definition callback :: "Result option \<Rightarrow> Exception option \<Rightarrow> settle" where
  "callback result error =
     (case error of
        Some e \<Rightarrow>
          if recoverable e
          then Ignore (''Ignoring exception '' @ name e @ '' while reading QRCode'')
          else Reject (EngineException e)
      | None \<Rightarrow>
          (case result of
             None \<Rightarrow> Reject (Error ''Unexpectedly called with no error nor result'')
           | Some r \<Rightarrow>
               if getText r = []
               then Reject (Error ''Unexpectedly called with no error nor text result'')
               else Resolve \<lparr>hasContent = True, content = getText r,
                             format = toString (getBarcodeFormat r)\<rparr>))"

text \<open>
  A promise settles once: \<open>resolve\<close> and \<open>reject\<close> on a settled promise do nothing.
  \<open>scan_promise\<close> is the state of the promise built in \<open>_getFirstResultFromReader\<close>
  after the engine has invoked the callback on each event of a sequence.
\<close>

datatype promise = Pending | Resolved IScanResultWithContent | Failed err

definition settle_promise :: "promise \<Rightarrow> settle \<Rightarrow> promise" where
  "settle_promise p a =
     (case p of
        Pending \<Rightarrow> (case a of Ignore _ \<Rightarrow> Pending | Resolve r \<Rightarrow> Resolved r | Reject e \<Rightarrow> Failed e)
      | _ \<Rightarrow> p)"

definition scan_promise :: "(Result option \<times> Exception option) list \<Rightarrow> promise" where
  "scan_promise evs = foldl (\<lambda>p (r, e). settle_promise p (callback r e)) Pending evs"

section \<open>Acquisition: \<open>_getVideoElement\<close> and \<open>_startVideo\<close>\<close>

definition spawn :: "call_state \<Rightarrow> world \<Rightarrow> world" where
  "spawn c w = w\<lparr>calls := calls w @ [c]\<rparr>"

text \<open>
  The end of \<open>_getVideoElement\<close> and what its caller does next: \<open>prepare\<close> returns;
  \<open>startScan\<close> and \<open>resumeScanning\<close> enter \<open>_getFirstResultFromReader\<close>, which builds
  the reader and the scan promise, whose executor calls \<open>decodeFromVideoElement\<close>, and
  suspends on the scan promise. The result is the new state of the call and the executor
  it started, if any; \<open>sid\<close> is the number that executor gets.
\<close>

definition continue_with_video ::
    "caller \<Rightarrow> VideoElement option \<Rightarrow> nat \<Rightarrow> call_state \<times> executor list" where
  "continue_with_video k vo sid =
     (case vo of
        None \<Rightarrow> (Threw (Error ''Unexpected null value for _video''), [])
      | Some v \<Rightarrow>
          (case k of
             Prepare \<Rightarrow> (Returned Void, [])
           | _ \<Rightarrow> (AwaitResult k sid, [AwaitControls v])))"

text \<open>\<open>await this._videoPromise\<close> on a promise that may have settled already.\<close>

definition await_videoPromise :: "caller \<Rightarrow> nat \<Rightarrow> world \<Rightarrow> call_state \<times> executor list" where
  "await_videoPromise k p w =
     (if p < length (promises w)
      then (case promises w ! p of
              Rejected e \<Rightarrow> (Threw e, [])
            | Fulfilled \<Rightarrow> continue_with_video k (video w) (length (executors w))
            | _ \<Rightarrow> (AwaitVideo k p, []))
      else (AwaitVideo k p, []))"

text \<open>A call that has run to its first suspension joins \<open>calls\<close>, with the executor it started.\<close>

definition spawn_with :: "call_state \<times> executor list \<Rightarrow> world \<Rightarrow> world" where
  "spawn_with cx w = (spawn (fst cx) w)\<lparr>executors := executors w @ snd cx\<rparr>"

text \<open>
  Settling acquisition promise \<open>p\<close> resumes every call suspended on it, in the order of
  the calls: with the error when the promise was rejected, else through the end of
  \<open>_getVideoElement\<close>.
\<close>

primrec resume ::
    "nat \<Rightarrow> err option \<Rightarrow> VideoElement option \<Rightarrow> call_state list \<Rightarrow> executor list
      \<Rightarrow> call_state list \<times> executor list" where
  "resume p outcome vo [] xs = ([], xs)"
| "resume p outcome vo (c # cs) xs =
     (let cx = (case c of
                  AwaitVideo k q \<Rightarrow>
                    if q = p
                    then (case outcome of
                            Some e \<Rightarrow> (Threw e, [])
                          | None \<Rightarrow> continue_with_video k vo (length xs))
                    else (c, [])
                | _ \<Rightarrow> (c, []));
          rest = resume p outcome vo cs (xs @ snd cx)
      in (fst cx # fst rest, snd rest))"

definition reject :: "nat \<Rightarrow> err \<Rightarrow> world \<Rightarrow> world" where
  "reject p e w =
     (let r = resume p (Some e) (video w) (calls w) (executors w)
      in w\<lparr>promises := (promises w)[p := Rejected e], calls := fst r, executors := snd r\<rparr>)"

definition fulfil :: "nat \<Rightarrow> world \<Rightarrow> world" where
  "fulfil p w =
     (let r = resume p None (video w) (calls w) (executors w)
      in w\<lparr>promises := (promises w)[p := Fulfilled], calls := fst r, executors := snd r\<rparr>)"

text \<open>\<open>_startVideo\<close> up to its first \<open>await\<close>.\<close>

definition startVideo :: "world \<Rightarrow> acquisition" where
  "startVideo w =
     (if \<not> mediaDevices w then Rejected (Error ''No mediaDevices supported'')
      else AwaitProbe (video_nonce w))"

definition getVideoElement :: "caller \<Rightarrow> world \<Rightarrow> world" where
  "getVideoElement k w =
     (case video w of
        Some v \<Rightarrow> spawn_with (continue_with_video k (video w) (length (executors w))) w
      | None \<Rightarrow>
          (case videoPromise w of
             None \<Rightarrow>
               (let p = length (promises w);
                    w1 = w\<lparr>promises := promises w @ [startVideo w], videoPromise := Some p\<rparr>
                in spawn_with (await_videoPromise k p w1) w1)
           | Some p \<Rightarrow> spawn_with (await_videoPromise k p w) w))"

text \<open>
  \<open>_startVideo\<close> after the first \<open>getUserMedia\<close> gave a stream of \<open>n\<close> tracks: the
  stream is stopped, the nonce is compared, the document is searched for id \<open>video\<close>, the
  element is built and the second \<open>getUserMedia\<close> is requested.
\<close>

definition startVideo_after_probe :: "nat \<Rightarrow> nat \<Rightarrow> nat \<Rightarrow> world \<Rightarrow> world" where
  "startVideo_after_probe p nonce n w =
     (let w1 = stopStream (length (streams w)) (w\<lparr>streams := streams w @ [replicate n True]\<rparr>)
      in if nonce \<noteq> video_nonce w1
         then reject p (ScanCanceled ''Canceled after stopping hypothetic previous scan'') w1
         else if body_videos w1 \<noteq> [] \<or> page_has_video_id w1
         then reject p (Error ''Camera already started'') w1
         else
           (let v = \<lparr>vid = p,
                     mirrored = ((case options w1 of None \<Rightarrow> None | Some opt \<Rightarrow> cameraDirection opt)
                                 \<noteq> Some BACK),
                     inline_attrs = safari w1,
                     srcObject = None\<rparr>
            in w1\<lparr>promises := (promises w1)[p := AwaitStream nonce v (facingMode w1)]\<rparr>))"

text \<open>After the second \<open>getUserMedia\<close> gave a stream of \<open>n\<close> tracks.\<close>

definition startVideo_after_stream :: "nat \<Rightarrow> nat \<Rightarrow> VideoElement \<Rightarrow> nat \<Rightarrow> world \<Rightarrow> world" where
  "startVideo_after_stream p nonce v n w =
     (let newStream = length (streams w);
          w1 = w\<lparr>streams := streams w @ [replicate n True]\<rparr>
      in if nonce \<noteq> video_nonce w1
         then reject p (ScanCanceled ''Canceled after creating new stream'') (stopStream newStream w1)
         else w1\<lparr>promises := (promises w1)[p := AwaitPlay nonce (v\<lparr>srcObject := Some newStream\<rparr>) newStream]\<rparr>)"

text \<open>
  After \<open>video.play()\<close> fulfilled: the last comparison of the nonce, then \<open>_startVideo\<close>
  returns the element and the closure of \<open>_getVideoElement\<close> puts it, inside a new
  \<open>div\<close>, into the document body and into \<open>_video\<close>.
\<close>

definition startVideo_after_play :: "nat \<Rightarrow> nat \<Rightarrow> VideoElement \<Rightarrow> nat \<Rightarrow> world \<Rightarrow> world" where
  "startVideo_after_play p nonce v newStream w =
     (if nonce \<noteq> video_nonce w
      then reject p (ScanCanceled ''Canceled while play stream instruction'') (stopStream newStream w)
      else fulfil p (w\<lparr>body_videos := body_videos w @ [vid v], video := Some v,
                       videoPromise := None\<rparr>))"

text \<open>A \<open>getUserMedia\<close> of acquisition \<open>p\<close> settles: with a stream of \<open>n\<close> tracks, or rejected.\<close>

definition media_settles :: "nat \<Rightarrow> nat option \<Rightarrow> world \<Rightarrow> world" where
  "media_settles p r w =
     (if p < length (promises w)
      then (case promises w ! p of
              AwaitProbe nonce \<Rightarrow>
                (case r of None \<Rightarrow> reject p GetUserMediaRejected w
                 | Some n \<Rightarrow> startVideo_after_probe p nonce n w)
            | AwaitStream nonce v fm \<Rightarrow>
                (case r of None \<Rightarrow> reject p GetUserMediaRejected w
                 | Some n \<Rightarrow> startVideo_after_stream p nonce v n w)
            | _ \<Rightarrow> w)
      else w)"

text \<open>\<open>video.play()\<close> of acquisition \<open>p\<close> settles: fulfilled or rejected.\<close>

definition play_settles :: "nat \<Rightarrow> bool \<Rightarrow> world \<Rightarrow> world" where
  "play_settles p ok w =
     (if p < length (promises w)
      then (case promises w ! p of
              AwaitPlay nonce v newStream \<Rightarrow>
                if ok then startVideo_after_play p nonce v newStream w
                else reject p PlayRejected w
            | _ \<Rightarrow> w)
      else w)"

section \<open>The asynchronous public methods\<close>

text \<open>
  The \<open>forEach\<close> of \<open>startScan\<close> over \<open>targetedFormats\<close>:
  \<open>Object.keys(BarcodeFormat).indexOf(format)\<close>, then \<open>this._formats.push(0)\<close> or a
  line on the console.
\<close>

primrec indexOf :: "string list \<Rightarrow> string \<Rightarrow> int" where
  "indexOf [] x = - 1"
| "indexOf (y # ys) x =
     (if y = x then 0 else (let i = indexOf ys x in if i < 0 then - 1 else i + 1))"

definition push_format :: "world \<Rightarrow> string \<Rightarrow> world" where
  "push_format w fmt =
     (let formatIndex = indexOf (BarcodeFormat_keys w) fmt
      in if formatIndex \<ge> 0 then w\<lparr>formats := formats w @ [0]\<rparr>
         else w\<lparr>console := console w @ [fmt @ '' is not supported on web'']\<rparr>)"

definition startScan :: "ScanOptions option \<Rightarrow> world \<Rightarrow> world" where
  "startScan opts w =
     (let w1 = w\<lparr>options := opts, formats := []\<rparr>;
          w2 = (case opts of
                  None \<Rightarrow> w1
                | Some opt \<Rightarrow>
                    (case targetedFormats opt of
                       None \<Rightarrow> w1
                     | Some fmts \<Rightarrow> foldl push_format w1 fmts));
          w3 = (case opts of
                  None \<Rightarrow> w2
                | Some opt \<Rightarrow>
                    (case cameraDirection opt of
                       None \<Rightarrow> w2
                     | Some d \<Rightarrow>
                         w2\<lparr>facingMode := (if d = BACK then BACK_environment else FORWARD_user)\<rparr>))
      in getVideoElement StartScan w3)"

definition prepare :: "world \<Rightarrow> world" where
  "prepare w = getVideoElement Prepare w"

definition resumeScanning :: "world \<Rightarrow> world" where
  "resumeScanning w = getVideoElement ResumeScanning w"

section \<open>Decoding: \<open>_getFirstResultFromReader\<close>\<close>

text \<open>
  \<open>decodeFromVideoElement\<close> of executor \<open>sid\<close> settles. When it gives a controls object
  (with or without \<open>switchTorch\<close>) the executor assigns it to \<open>_controls\<close>, whether or
  not the scan promise has settled meanwhile; when it rejects, the executor fails, which
  settles nothing.
\<close>

definition controls_settle :: "nat \<Rightarrow> bool option \<Rightarrow> world \<Rightarrow> world" where
  "controls_settle sid r w =
     (if sid < length (executors w)
      then (case executors w ! sid of
              AwaitControls v \<Rightarrow>
                (case r of
                   None \<Rightarrow> w\<lparr>executors := (executors w)[sid := ExecutorFailed]\<rparr>
                 | Some cap \<Rightarrow>
                     w\<lparr>ctrls := ctrls w @ [\<lparr>has_switchTorch = cap, running = True, torch = False\<rparr>],
                       controls := Some (length (ctrls w)),
                       executors := (executors w)[sid := Assigned (length (ctrls w))]\<rparr>)
            | _ \<Rightarrow> w)
      else w)"

text \<open>The \<open>finally\<close> block.\<close>

definition finally_block :: "world \<Rightarrow> world" where
  "finally_block w =
     (case controls w of
        None \<Rightarrow> w
      | Some c \<Rightarrow> stop ((controls_stop c w)\<lparr>controls := None\<rparr>))"

text \<open>
  What the caller returns once the scan promise resolved with \<open>r\<close>. The result object is
  never falsy, so \<open>startScan\<close> does not reach its \<open>Missing scan result\<close>.
\<close>

definition returns :: "caller \<Rightarrow> IScanResultWithContent \<Rightarrow> call_state" where
  "returns k r = (case k of StartScan \<Rightarrow> Returned (Scan r) | _ \<Rightarrow> Returned Void)"

text \<open>
  The scan promise of executor \<open>sid\<close> is pending as long as a call is suspended on it.
  Settling it resumes that call, which goes through the \<open>finally\<close> block and returns or
  throws; \<open>resolve\<close> and \<open>reject\<close> on a settled promise do nothing.
\<close>

definition awaits :: "nat \<Rightarrow> call_state \<Rightarrow> bool" where
  "awaits sid c = (case c of AwaitResult k s \<Rightarrow> s = sid | _ \<Rightarrow> False)"

definition settled :: "nat \<Rightarrow> err + IScanResultWithContent \<Rightarrow> call_state \<Rightarrow> call_state" where
  "settled sid outcome c =
     (case c of
        AwaitResult k s \<Rightarrow>
          if s = sid then (case outcome of Inl e \<Rightarrow> Threw e | Inr r \<Rightarrow> returns k r) else c
      | _ \<Rightarrow> c)"

definition settle_scan :: "nat \<Rightarrow> err + IScanResultWithContent \<Rightarrow> world \<Rightarrow> world" where
  "settle_scan sid outcome w =
     (if list_ex (awaits sid) (calls w)
      then (let w1 = finally_block w in w1\<lparr>calls := map (settled sid outcome) (calls w1)\<rparr>)
      else w)"

text \<open>
  The engine invokes the callback that executor \<open>sid\<close> handed to
  \<open>decodeFromVideoElement\<close>, with \<open>(result, error)\<close>. The callback looks at nothing of
  the session, \<open>_controls\<close> included: it runs the same before and after the controls are
  assigned, and whenever the engine chooses to call it.
\<close>

definition frame :: "nat \<Rightarrow> Result option \<Rightarrow> Exception option \<Rightarrow> world \<Rightarrow> world" where
  "frame sid result error w =
     (case callback result error of
        Ignore msg \<Rightarrow> w\<lparr>console := console w @ [msg]\<rparr>
      | Resolve r \<Rightarrow> settle_scan sid (Inr r) w
      | Reject e \<Rightarrow> settle_scan sid (Inl e) w)"

section \<open>Events and runs\<close>

datatype operation =
    M_prepare | M_hideBackground | M_showBackground | M_startScan "ScanOptions option"
  | M_startScanning | M_pauseScanning | M_resumeScanning | M_stopScan | M_openAppSettings
  | M_disableTorch | M_enableTorch | M_toggleTorch | M_getTorchState

text \<open>
  A call of a public operation runs to its first suspension and adds its promise to \<open>calls\<close>.
  The member functions without \<open>await\<close> settle at once.
\<close>

definition invoke :: "operation \<Rightarrow> world \<Rightarrow> world" where
  "invoke m w =
     (case m of
        M_prepare \<Rightarrow> prepare w
      | M_hideBackground \<Rightarrow> spawn (Returned Void) (hideBackground w)
      | M_showBackground \<Rightarrow> spawn (Returned Void) (showBackground w)
      | M_startScan opts \<Rightarrow> startScan opts w
      | M_startScanning \<Rightarrow> spawn (Threw (Unimplemented ''Not implemented on web.'')) w
      | M_pauseScanning \<Rightarrow> spawn (Returned Void) (pauseScanning w)
      | M_resumeScanning \<Rightarrow> resumeScanning w
      | M_stopScan \<Rightarrow> spawn (Returned Void) (stopScan w)
      | M_openAppSettings \<Rightarrow>
          spawn (Threw (Unavailable ''App settings are not available in this browser'')) w
      | M_disableTorch \<Rightarrow> spawn (Returned Void) (disableTorch w)
      | M_enableTorch \<Rightarrow> spawn (Returned Void) (enableTorch w)
      | M_toggleTorch \<Rightarrow> spawn (Returned Void) (toggleTorch w)
      | M_getTorchState \<Rightarrow> spawn (Returned (Torch (getTorchState w))) w)"

datatype event =
    Call operation
  | MediaSettles nat "nat option"
  | PlaySettles nat bool
  | ControlsSettle nat "bool option"
  | Frame nat "Result option" "Exception option"

definition step :: "event \<Rightarrow> world \<Rightarrow> world" where
  "step ev w =
     (case ev of
        Call m \<Rightarrow> invoke m w
      | MediaSettles p r \<Rightarrow> media_settles p r w
      | PlaySettles p ok \<Rightarrow> play_settles p ok w
      | ControlsSettle t r \<Rightarrow> controls_settle t r w
      | Frame t result error \<Rightarrow> frame t result error w)"

definition run :: "event list \<Rightarrow> world \<Rightarrow> world" where
  "run evs w = foldl (\<lambda>w ev. step ev w) w evs"

text \<open>The tracks that are live.\<close>

definition live_tracks :: "world \<Rightarrow> nat" where
  "live_tracks w = length (filter (\<lambda>b. b) (concat (streams w)))"

section \<open>Concrete inputs\<close>

text \<open>
  The engine's enum \<open>BarcodeFormat\<close> (declared in the engine, not in this repository),
  and what \<open>Object.keys\<close> gives on a numeric TypeScript enum: the reverse-mapping keys
  (the values in decimal) first, then the names. They instantiate the parameter
  \<open>BarcodeFormat_keys\<close> at a concrete input.
\<close>

definition BarcodeFormat :: "(string \<times> nat) list" where
  "BarcodeFormat =
     [(''AZTEC'', 0), (''CODABAR'', 1), (''CODE_39'', 2), (''CODE_93'', 3), (''CODE_128'', 4),
      (''DATA_MATRIX'', 5), (''EAN_8'', 6), (''EAN_13'', 7), (''ITF'', 8), (''MAXICODE'', 9),
      (''PDF_417'', 10), (''QR_CODE'', 11), (''RSS_14'', 12), (''RSS_EXPANDED'', 13),
      (''UPC_A'', 14), (''UPC_E'', 15), (''UPC_EAN_EXTENSION'', 16)]"

definition Object_keys :: "(string \<times> nat) list \<Rightarrow> string list" where
  "Object_keys enum = map (\<lambda>(k, v). toString v) enum @ map fst enum"

text \<open>
  A session in the middle of a scan: \<open>startScan()\<close>, both media requests and the playback
  start fulfilled, and the engine handed out controls that can switch the torch.
\<close>

definition scanning :: world where
  "scanning =
     run [Call (M_startScan None), MediaSettles 0 (Some 1), MediaSettles 0 (Some 1),
          PlaySettles 0 True, ControlsSettle 0 (Some True)]
       (initial True False [] False [])"


text \<open>
  A session at the start of a scan: as above, but \<open>decodeFromVideoElement\<close> has not
  settled yet, so no controls are assigned.
\<close>

definition starting :: world where
  "starting =
     run [Call (M_startScan None), MediaSettles 0 (Some 1), MediaSettles 0 (Some 1),
          PlaySettles 0 True]
       (initial True False [] False [])"

section \<open>Predicates on states\<close>

text \<open>An acquisition promise that has not settled.\<close>


definition pending :: "acquisition \<Rightarrow> bool" where
  "pending a = (case a of Fulfilled \<Rightarrow> False | Rejected _ \<Rightarrow> False | _ \<Rightarrow> True)"

text \<open>
  The invariant of the session: an unsettled acquisition is the one \<open>_videoPromise\<close>
  holds, \<open>_video\<close> is null while \<open>_videoPromise\<close> is set, and the document holds
  exactly the element in \<open>_video\<close>.
\<close>

definition session_inv :: "world \<Rightarrow> bool" where
  "session_inv w \<longleftrightarrow>
     (\<forall>p < length (promises w). pending (promises w ! p) \<longrightarrow> videoPromise w = Some p)
     \<and> (videoPromise w \<noteq> None \<longrightarrow> video w = None)
     \<and> body_videos w = (case video w of None \<Rightarrow> [] | Some v \<Rightarrow> [vid v])"

text \<open>
  Acquisition \<open>p\<close>, which captured the nonce \<open>n\<close> and was suspended as \<open>a\<close>, has
  been overtaken by a stop: the nonce has moved past \<open>n\<close>, and the acquisition is still
  suspended where it was or has been rejected.
\<close>

definition canceled :: "nat \<Rightarrow> nat \<Rightarrow> acquisition \<Rightarrow> world \<Rightarrow> bool" where
  "canceled p n a w \<longleftrightarrow>
     p < length (promises w) \<and> n < video_nonce w
     \<and> (promises w ! p = a \<or> (\<exists>e. promises w ! p = Rejected e))"

section \<open>Auxiliary lemmas\<close>



lemma indexOf_nonneg: "(indexOf ks x \<ge> 0) = (x \<in> set ks)"
  by (induction ks) (auto simp: Let_def)

lemma foldl_push_format:
  "foldl push_format w fs =
     w\<lparr>formats := formats w @ replicate (length (filter (\<lambda>f. f \<in> set (BarcodeFormat_keys w)) fs)) 0,
       console := console w @ map (\<lambda>f. f @ '' is not supported on web'')
                                 (filter (\<lambda>f. f \<notin> set (BarcodeFormat_keys w)) fs)\<rparr>"
proof (induction fs arbitrary: w)
  case Nil
  show ?case by simp
next
  case (Cons f fs)
  have "foldl push_format w (f # fs) = foldl push_format (push_format w f) fs"
    by simp
  also have "\<dots> = (push_format w f)
      \<lparr>formats := formats (push_format w f)
         @ replicate (length (filter (\<lambda>f'. f' \<in> set (BarcodeFormat_keys (push_format w f))) fs)) 0,
       console := console (push_format w f) @ map (\<lambda>f. f @ '' is not supported on web'')
                     (filter (\<lambda>f'. f' \<notin> set (BarcodeFormat_keys (push_format w f))) fs)\<rparr>"
    by (rule Cons.IH)
  also have "\<dots> = w\<lparr>formats := formats w
         @ replicate (length (filter (\<lambda>f. f \<in> set (BarcodeFormat_keys w)) (f # fs))) 0,
       console := console w @ map (\<lambda>f. f @ '' is not supported on web'')
                     (filter (\<lambda>f. f \<notin> set (BarcodeFormat_keys w)) (f # fs))\<rparr>"
    by (simp add: push_format_def indexOf_nonneg replicate_app_Cons_same)
  finally show ?case .
qed

lemmas sync_defs = stop_def stopVideo_def stopStream_def controls_stop_def switchTorch_def
  hideBackground_def showBackground_def pauseScanning_def stopScan_def torch_control_def
  disableTorch_def enableTorch_def toggleTorch_def getTorchState_def spawn_def

lemmas acq_defs = continue_with_video_def await_videoPromise_def spawn_with_def reject_def
  fulfil_def
  startVideo_def getVideoElement_def startVideo_after_probe_def startVideo_after_stream_def
  startVideo_after_play_def media_settles_def play_settles_def

lemmas call_defs = startScan_def prepare_def resumeScanning_def controls_settle_def
  finally_block_def returns_def awaits_def settled_def settle_scan_def frame_def invoke_def
  step_def

lemma torchState_stop [simp]: "torchState (stop w) = torchState w"
  by (simp add: stop_def stopVideo_def stopStream_def Let_def split: option.splits)

lemma torchState_getVideoElement [simp]: "torchState (getVideoElement k w) = torchState w"
  by (simp add: getVideoElement_def spawn_def spawn_with_def Let_def split: option.splits)

lemma torchState_media_settles [simp]: "torchState (media_settles p r w) = torchState w"
  by (simp add: media_settles_def startVideo_after_probe_def startVideo_after_stream_def
      reject_def stopStream_def Let_def split: option.splits acquisition.splits)

lemma torchState_play_settles [simp]: "torchState (play_settles p ok w) = torchState w"
  by (simp add: play_settles_def startVideo_after_play_def
      reject_def fulfil_def stopStream_def Let_def split: option.splits acquisition.splits)

lemma torchState_controls_settle [simp]: "torchState (controls_settle t r w) = torchState w"
  by (simp add: controls_settle_def split: option.splits executor.splits)

lemma torchState_frame [simp]: "torchState (frame t r e w) = torchState w"
  by (simp add: frame_def settle_scan_def finally_block_def controls_stop_def Let_def
      split: option.splits settle.splits)

lemma torchState_startScan [simp]: "torchState (startScan opts w) = torchState w"
  by (simp add: startScan_def foldl_push_format Let_def split: option.splits)

lemma torchState_invoke:
  "torchState (invoke m w) =
     (if m = M_enableTorch \<and> torch_control w \<noteq> None then True
      else if m = M_disableTorch \<and> torch_control w \<noteq> None then False
      else torchState w)"
  by (cases m)
     (auto simp: invoke_def prepare_def resumeScanning_def spawn_def hideBackground_def
        showBackground_def pauseScanning_def stopScan_def controls_stop_def
        enableTorch_def disableTorch_def toggleTorch_def switchTorch_def Let_def
      split: option.splits)

lemma torchState_step:
  "torchState (step ev w) =
     (if ev = Call M_enableTorch \<and> torch_control w \<noteq> None then True
      else if ev = Call M_disableTorch \<and> torch_control w \<noteq> None then False
      else torchState w)"
  by (cases ev) (auto simp: step_def torchState_invoke)


lemma scanning_eq:
  "scanning =
     \<lparr>formats = [], controls = Some 0, torchState = False,
      video = Some \<lparr>vid = 0, mirrored = True, inline_attrs = False, srcObject = Some 1\<rparr>,
      videoPromise = None, video_nonce = 0, options = None, backgroundColor = None,
      facingMode = BACK_environment, mediaDevices = True, safari = False,
      BarcodeFormat_keys = [], page_has_video_id = False, root_backgroundColor = [],
      body_videos = [0], streams = [[False], [True]],
      ctrls = [\<lparr>has_switchTorch = True, running = True, torch = False\<rparr>],
      executors = [Assigned 0], promises = [Fulfilled], calls = [AwaitResult StartScan 0], console = []\<rparr>"
  by (simp add: scanning_def run_def initial_def sync_defs acq_defs call_defs Let_def)

lemma starting_eq:
  "starting =
     \<lparr>formats = [], controls = None, torchState = False,
      video = Some \<lparr>vid = 0, mirrored = True, inline_attrs = False, srcObject = Some 1\<rparr>,
      videoPromise = None, video_nonce = 0, options = None, backgroundColor = None,
      facingMode = BACK_environment, mediaDevices = True, safari = False,
      BarcodeFormat_keys = [], page_has_video_id = False, root_backgroundColor = [],
      body_videos = [0], streams = [[False], [True]], ctrls = [],
      executors = [AwaitControls \<lparr>vid = 0, mirrored = True, inline_attrs = False,
                                  srcObject = Some 1\<rparr>],
      promises = [Fulfilled], calls = [AwaitResult StartScan 0], console = []\<rparr>"
  by (simp add: starting_def run_def initial_def sync_defs acq_defs call_defs Let_def)

lemma torchState_run:
  "\<forall>i < length evs. evs ! i = Call M_disableTorch \<longrightarrow> torch_control (run (take i evs) w) = None
   \<Longrightarrow> torchState w \<Longrightarrow> torchState (run evs w)"
proof (induction evs arbitrary: w rule: rev_induct)
  case Nil
  then show ?case by (simp add: run_def)
next
  case (snoc ev evs)
  have pre: "\<forall>i < length evs. evs ! i = Call M_disableTorch \<longrightarrow> torch_control (run (take i evs) w) = None"
  proof (intro allI impI)
    fix i assume i: "i < length evs" and e: "evs ! i = Call M_disableTorch"
    from snoc.prems(1) [rule_format, of i] i e
    show "torch_control (run (take i evs) w) = None"
      by (simp add: nth_append)
  qed
  have t: "torchState (run evs w)"
    using snoc.IH [OF pre snoc.prems(2)] .
  have last: "ev = Call M_disableTorch \<longrightarrow> torch_control (run evs w) = None"
    using snoc.prems(1) [rule_format, of "length evs"] by simp
  have "run (evs @ [ev]) w = step ev (run evs w)"
    by (simp add: run_def)
  then show ?case
    using t last by (simp add: torchState_step)
qed

lemma pending_simps [simp]:
  "pending (AwaitProbe n)" "pending (AwaitStream n v fm)" "pending (AwaitPlay n v s)"
  "\<not> pending Fulfilled" "\<not> pending (Rejected e)"
  by (simp_all add: pending_def)

lemma session_inv_update [simp]:
  "session_inv (w\<lparr>calls := c\<rparr>) = session_inv w"
  "session_inv (w\<lparr>console := co\<rparr>) = session_inv w"
  "session_inv (w\<lparr>streams := st\<rparr>) = session_inv w"
  "session_inv (w\<lparr>ctrls := cs\<rparr>) = session_inv w"
  "session_inv (w\<lparr>executors := xs\<rparr>) = session_inv w"
  "session_inv (w\<lparr>controls := ct\<rparr>) = session_inv w"
  "session_inv (w\<lparr>torchState := ts\<rparr>) = session_inv w"
  "session_inv (w\<lparr>formats := fs\<rparr>) = session_inv w"
  "session_inv (w\<lparr>options := os\<rparr>) = session_inv w"
  "session_inv (w\<lparr>facingMode := fm\<rparr>) = session_inv w"
  "session_inv (w\<lparr>backgroundColor := bc\<rparr>) = session_inv w"
  "session_inv (w\<lparr>root_backgroundColor := rc\<rparr>) = session_inv w"
  "session_inv (w\<lparr>video_nonce := vn\<rparr>) = session_inv w"
  by (simp_all add: session_inv_def)

lemma inv_pendingD:
  assumes "session_inv w" and "p < length (promises w)" and "pending (promises w ! p)"
  shows "videoPromise w = Some p" and "video w = None" and "body_videos w = []"
  using assms by (auto simp: session_inv_def)

lemma nth_upd: "xs[i := x] ! j = (if i = j \<and> i < length xs then x else xs ! j)"
  by (cases "i < length xs") (simp_all add: nth_list_update list_update_beyond)

lemma inv_initial: "session_inv (initial md sf ks pv bg)"
  by (simp add: session_inv_def initial_def)

lemma inv_stopStream [simp]: "session_inv (stopStream s w) = session_inv w"
  by (simp add: stopStream_def)

lemma inv_controls_stop [simp]: "session_inv (controls_stop c w) = session_inv w"
  by (simp add: controls_stop_def)

lemma inv_switchTorch [simp]: "session_inv (switchTorch c b w) = session_inv w"
  by (simp add: switchTorch_def)

lemma inv_spawn [simp]: "session_inv (spawn c w) = session_inv w"
  by (simp add: spawn_def)

lemma inv_stop: "session_inv w \<Longrightarrow> session_inv (stop w)"
  by (auto simp: session_inv_def stop_def stopVideo_def stopStream_def Let_def
      split: option.splits)

lemma inv_getVideoElement: "session_inv w \<Longrightarrow> session_inv (getVideoElement k w)"
  by (auto simp: session_inv_def getVideoElement_def spawn_def spawn_with_def startVideo_def Let_def nth_append
      split: option.splits)

lemma inv_startScan: "session_inv w \<Longrightarrow> session_inv (startScan opts w)"
  unfolding startScan_def Let_def
  by (rule inv_getVideoElement) (simp add: foldl_push_format split: option.splits)

lemma inv_invoke: "session_inv w \<Longrightarrow> session_inv (invoke m w)"
  by (cases m)
     (simp_all add: invoke_def prepare_def resumeScanning_def inv_getVideoElement inv_startScan
        inv_stop stopScan_def pauseScanning_def hideBackground_def showBackground_def
        enableTorch_def disableTorch_def toggleTorch_def Let_def split: option.splits)

lemma inv_reject: "session_inv w \<Longrightarrow> session_inv (reject p e w)"
  by (auto simp: session_inv_def reject_def Let_def nth_upd)

lemma inv_promises_update:
  assumes "session_inv w" and "p < length (promises w)" and "pending (promises w ! p)"
    and "promises w' = (promises w)[p := a]" and "videoPromise w' = videoPromise w"
    and "video w' = video w" and "body_videos w' = body_videos w"
  shows "session_inv w'"
proof -
  note f = inv_pendingD [OF assms(1-3)]
  have "\<And>q. q < length (promises w) \<Longrightarrow> pending (promises w ! q) \<Longrightarrow> q = p"
    using inv_pendingD(1) [OF assms(1)] f(1) by fastforce
  then show ?thesis
    using f assms(4-7) by (auto simp: session_inv_def nth_upd)
qed

lemma inv_fulfil:
  assumes "session_inv w" and "p < length (promises w)" and "pending (promises w ! p)"
  shows "session_inv (fulfil p (w\<lparr>body_videos := body_videos w @ [vid v], video := Some v,
                                  videoPromise := None\<rparr>))"
proof -
  note f = inv_pendingD [OF assms]
  have "\<And>q. q < length (promises w) \<Longrightarrow> pending (promises w ! q) \<Longrightarrow> q = p"
    using inv_pendingD(1) [OF assms(1)] f(1) by fastforce
  then show ?thesis
    using f by (auto simp: session_inv_def fulfil_def Let_def nth_upd)
qed

lemma inv_media_settles: "session_inv w \<Longrightarrow> session_inv (media_settles p r w)"
  by (auto simp: media_settles_def startVideo_after_probe_def startVideo_after_stream_def
        Let_def inv_reject stopStream_def
      split: acquisition.splits option.splits
      intro: inv_promises_update [of w p])

lemma inv_play_settles: "session_inv w \<Longrightarrow> session_inv (play_settles p ok w)"
  by (auto simp: play_settles_def startVideo_after_play_def inv_reject inv_fulfil
      split: acquisition.splits)

lemma inv_controls_settle: "session_inv w \<Longrightarrow> session_inv (controls_settle t r w)"
  by (simp add: controls_settle_def split: executor.splits option.splits)

lemma inv_finally_block: "session_inv w \<Longrightarrow> session_inv (finally_block w)"
  by (simp add: finally_block_def inv_stop split: option.splits)

lemma inv_frame: "session_inv w \<Longrightarrow> session_inv (frame t r e w)"
  by (simp add: frame_def settle_scan_def Let_def inv_finally_block split: settle.splits)

lemma inv_step: "session_inv w \<Longrightarrow> session_inv (step ev w)"
  by (cases ev)
     (simp_all add: step_def inv_invoke inv_media_settles inv_play_settles inv_controls_settle
        inv_frame)

lemma run_snoc: "run (evs @ [ev]) w = step ev (run evs w)"
  by (simp add: run_def)

lemma inv_run: "session_inv w \<Longrightarrow> session_inv (run evs w)"
  by (induction evs rule: rev_induct) (simp_all add: run_snoc inv_step, simp add: run_def)

lemma settle_promise_settled: "p \<noteq> Pending \<Longrightarrow> settle_promise p a = p"
  by (cases p) (simp_all add: settle_promise_def)

lemma settle_promise_Pending:
  "settle_promise Pending a =
     (case a of Ignore _ \<Rightarrow> Pending | Resolve r \<Rightarrow> Resolved r | Reject e \<Rightarrow> Failed e)"
  by (simp add: settle_promise_def)

lemma foldl_settled:
  "p \<noteq> Pending \<Longrightarrow> foldl (\<lambda>p (r, e). settle_promise p (callback r e)) p evs = p"
  by (induction evs arbitrary: p) (simp_all add: settle_promise_settled split: prod.splits)

lemma callback_recoverable:
  "recoverable e \<Longrightarrow>
     callback r (Some e) = Ignore (''Ignoring exception '' @ name e @ '' while reading QRCode'')"
  by (simp add: callback_def)

lemma callback_Ignore_iff:
  "(\<exists>msg. callback r er = Ignore msg) \<longleftrightarrow> (\<exists>e. er = Some e \<and> recoverable e)"
  by (auto simp: callback_def split: option.splits)

lemma scan_promise_Cons:
  "scan_promise ((r, er) # evs) =
     (case callback r er of
        Ignore _ \<Rightarrow> scan_promise evs
      | Resolve x \<Rightarrow> Resolved x
      | Reject e \<Rightarrow> Failed e)"
  by (cases "callback r er") (simp_all add: scan_promise_def settle_promise_Pending foldl_settled)

lemma scan_promise_drop:
  "recoverable e \<Longrightarrow> scan_promise (evs @ (r, Some e) # evs') = scan_promise (evs @ evs')"
proof (induction evs)
  case Nil
  then show ?case by (simp add: scan_promise_Cons callback_recoverable)
next
  case (Cons a evs)
  then show ?case by (cases a) (simp add: scan_promise_Cons split: settle.splits)
qed

lemma scan_promise_Pending_iff:
  "scan_promise evs = Pending \<longleftrightarrow> (\<forall>(r, er) \<in> set evs. \<exists>e. er = Some e \<and> recoverable e)"
proof (induction evs)
  case Nil
  show ?case by (simp add: scan_promise_def)
next
  case (Cons a evs)
  obtain r er where a: "a = (r, er)" by (cases a)
  show ?case
    using Cons callback_Ignore_iff [of r er]
    by (cases "callback r er") (auto simp: a scan_promise_Cons)
qed

lemma calls_stop [simp]: "calls (stop w) = calls w"
  by (simp add: stop_def stopVideo_def stopStream_def Let_def split: option.splits)

lemma calls_finally_block [simp]: "calls (finally_block w) = calls w"
  by (simp add: finally_block_def controls_stop_def split: option.splits)

lemma calls_frame_recoverable:
  "recoverable e \<Longrightarrow> calls (step (Frame t r (Some e)) w) = calls w"
  by (simp add: step_def frame_def callback_recoverable)

lemma calls_settle_scan:
  "calls (settle_scan sid outcome w) = map (settled sid outcome) (calls w)"
proof (cases "list_ex (awaits sid) (calls w)")
  case True
  then show ?thesis by (simp add: settle_scan_def Let_def)
next
  case False
  then have "\<forall>c \<in> set (calls w). settled sid outcome c = c"
    by (auto simp: list_ex_iff awaits_def settled_def split: call_state.splits)
  then have "map (settled sid outcome) (calls w) = calls w"
    by (simp add: map_idI)
  then show ?thesis using False by (simp add: settle_scan_def)
qed

lemma calls_frame:
  "calls (step (Frame sid r er) w) =
     (case callback r er of
        Ignore _ \<Rightarrow> calls w
      | Resolve res \<Rightarrow> map (settled sid (Inr res)) (calls w)
      | Reject ex \<Rightarrow> map (settled sid (Inl ex)) (calls w))"
  by (simp add: step_def frame_def calls_settle_scan split: settle.splits)

lemma run_Cons: "run (ev # evs) w = run evs (step ev w)"
  by (simp add: run_def)

lemma calls_frames_settled:
  "t < length (calls w) \<Longrightarrow> \<not> awaits sid (calls w ! t) \<Longrightarrow>
     calls (run (map (\<lambda>(r, er). Frame sid r er) fs) w) ! t = calls w ! t"
proof (induction fs arbitrary: w)
  case Nil
  show ?case by (simp add: run_def)
next
  case (Cons a fs)
  obtain r er where a: "a = (r, er)" by (cases a)
  let ?w = "step (Frame sid r er) w"
  have same: "calls ?w ! t = calls w ! t" and len: "t < length (calls ?w)"
    using Cons.prems
    by (auto simp: calls_frame awaits_def settled_def split: settle.splits call_state.splits)
  have "calls (run (map (\<lambda>(r, er). Frame sid r er) fs) ?w) ! t = calls ?w ! t"
    using Cons.prems(2) by (intro Cons.IH len) (simp add: same)
  then show ?case
    by (simp add: a run_Cons same)
qed

lemma calls_frames_run:
  "t < length (calls w) \<Longrightarrow> calls w ! t = AwaitResult StartScan sid \<Longrightarrow>
     calls (run (map (\<lambda>(r, er). Frame sid r er) fs) w) ! t =
       (case scan_promise fs of
          Pending \<Rightarrow> AwaitResult StartScan sid
        | Resolved res \<Rightarrow> Returned (Scan res)
        | Failed ex \<Rightarrow> Threw ex)"
proof (induction fs arbitrary: w)
  case Nil
  then show ?case by (simp add: run_def scan_promise_def)
next
  case (Cons a fs)
  obtain r er where a: "a = (r, er)" by (cases a)
  let ?w = "step (Frame sid r er) w"
  have len: "t < length (calls ?w)"
    using Cons.prems(1) by (simp add: calls_frame split: settle.splits)
  show ?case
  proof (cases "callback r er")
    case (Ignore msg)
    then have "calls ?w ! t = AwaitResult StartScan sid"
      using Cons.prems by (simp add: calls_frame)
    then show ?thesis
      using Cons.IH [OF len] Ignore by (simp add: a run_Cons scan_promise_Cons)
  next
    case (Resolve res)
    then have c: "calls ?w ! t = Returned (Scan res)"
      using Cons.prems by (simp add: calls_frame settled_def returns_def)
    then have "\<not> awaits sid (calls ?w ! t)"
      by (simp add: awaits_def)
    then show ?thesis
      using calls_frames_settled [OF len, of sid fs] c Resolve
      by (simp add: a run_Cons scan_promise_Cons)
  next
    case (Reject ex)
    then have c: "calls ?w ! t = Threw ex"
      using Cons.prems by (simp add: calls_frame settled_def)
    then have "\<not> awaits sid (calls ?w ! t)"
      by (simp add: awaits_def)
    then show ?thesis
      using calls_frames_settled [OF len, of sid fs] c Reject
      by (simp add: a run_Cons scan_promise_Cons)
  qed
qed

lemma step_frame_recoverable:
  "recoverable e \<Longrightarrow>
     step (Frame sid r (Some e)) w =
       w\<lparr>console := console w
            @ [''Ignoring exception '' @ name e @ '' while reading QRCode'']\<rparr>"
  by (simp add: step_def frame_def callback_recoverable)

lemma indexOf_BarcodeFormat:
  "indexOf (Object_keys BarcodeFormat) ''QR_CODE'' = 28"
  "indexOf (Object_keys BarcodeFormat) ''QR'' = - 1"
  by code_simp+

lemmas eval_defs = run_def initial_def sync_defs acq_defs call_defs Let_def
  live_tracks_def

lemma video_nonce_stop: "video_nonce (stop w) = video_nonce w + 1"
  by (simp add: stop_def stopVideo_def stopStream_def Let_def split: option.splits)

lemma video_nonce_stopScan: "video_nonce (stopScan w) = video_nonce w + 1"
  by (simp add: stopScan_def controls_stop_def video_nonce_stop Let_def split: option.splits)

lemma promises_stop [simp]: "promises (stop w) = promises w"
  by (simp add: stop_def stopVideo_def stopStream_def Let_def split: option.splits)

lemma promises_stopScan [simp]: "promises (stopScan w) = promises w"
  by (simp add: stopScan_def controls_stop_def Let_def split: option.splits)

lemma video_nonce_getVideoElement [simp]:
  "video_nonce (getVideoElement k w) = video_nonce w"
  by (simp add: getVideoElement_def spawn_def spawn_with_def Let_def split: option.splits)

lemma video_nonce_startScan [simp]: "video_nonce (startScan opts w) = video_nonce w"
  by (simp add: startScan_def foldl_push_format Let_def split: option.splits)

lemma promises_getVideoElement:
  "p < length (promises w) \<Longrightarrow>
     p < length (promises (getVideoElement k w))
     \<and> promises (getVideoElement k w) ! p = promises w ! p"
  by (simp add: getVideoElement_def spawn_def spawn_with_def Let_def nth_append split: option.splits)

lemma startScan_prep:
  "\<exists>w'. startScan opts w = getVideoElement StartScan w'
        \<and> promises w' = promises w \<and> video_nonce w' = video_nonce w \<and> video w' = video w
        \<and> videoPromise w' = videoPromise w \<and> streams w' = streams w \<and> calls w' = calls w
        \<and> mediaDevices w' = mediaDevices w"
  unfolding startScan_def Let_def
  by (rule exI, rule conjI, rule refl) (simp add: foldl_push_format split: option.splits)

lemma promises_startScan:
  assumes "p < length (promises w)"
  shows "p < length (promises (startScan opts w))
     \<and> promises (startScan opts w) ! p = promises w ! p"
proof -
  obtain w' where w': "startScan opts w = getVideoElement StartScan w'"
    "promises w' = promises w"
    using startScan_prep by blast
  show ?thesis
    using promises_getVideoElement [of p w' StartScan] assms by (simp add: w')
qed

lemma promises_invoke:
  "p < length (promises w) \<Longrightarrow>
     p < length (promises (invoke m w)) \<and> promises (invoke m w) ! p = promises w ! p"
  by (cases m)
     (simp_all add: invoke_def prepare_def resumeScanning_def promises_getVideoElement
        promises_startScan spawn_def hideBackground_def showBackground_def pauseScanning_def
        controls_stop_def enableTorch_def disableTorch_def toggleTorch_def switchTorch_def
      split: option.splits)

lemma video_nonce_invoke: "video_nonce w \<le> video_nonce (invoke m w)"
  by (cases m)
     (simp_all add: invoke_def prepare_def resumeScanning_def video_nonce_stopScan
        spawn_def hideBackground_def showBackground_def pauseScanning_def
        controls_stop_def enableTorch_def disableTorch_def toggleTorch_def switchTorch_def
      split: option.splits)

lemma video_nonce_media_settles [simp]: "video_nonce (media_settles p r w) = video_nonce w"
  by (simp add: media_settles_def startVideo_after_probe_def startVideo_after_stream_def
      reject_def stopStream_def Let_def split: option.splits acquisition.splits)

lemma video_nonce_play_settles [simp]: "video_nonce (play_settles p ok w) = video_nonce w"
  by (simp add: play_settles_def startVideo_after_play_def
      reject_def fulfil_def stopStream_def Let_def split: option.splits acquisition.splits)

lemma video_nonce_controls_settle [simp]:
  "video_nonce (controls_settle t r w) = video_nonce w"
  by (simp add: controls_settle_def split: option.splits executor.splits)

lemma promises_controls_settle [simp]: "promises (controls_settle t r w) = promises w"
  by (simp add: controls_settle_def split: option.splits executor.splits)

lemma video_nonce_frame: "video_nonce w \<le> video_nonce (frame t r e w)"
  by (simp add: frame_def settle_scan_def finally_block_def video_nonce_stop controls_stop_def
      Let_def split: option.splits settle.splits)

lemma promises_frame [simp]: "promises (frame t r e w) = promises w"
  by (simp add: frame_def settle_scan_def finally_block_def controls_stop_def Let_def
      split: option.splits settle.splits)

lemma canceled_media_settles:
  assumes "canceled p n a w" and "a = AwaitProbe n \<or> a = AwaitStream n v fm \<or> a = AwaitPlay n v s"
  shows "canceled p n a (media_settles q r w)"
  using assms
  by (auto simp: canceled_def media_settles_def startVideo_after_probe_def
        startVideo_after_stream_def reject_def stopStream_def Let_def nth_upd
      split: option.splits acquisition.splits)

lemma canceled_play_settles:
  assumes "canceled p n a w" and "a = AwaitProbe n \<or> a = AwaitStream n v fm \<or> a = AwaitPlay n v s"
  shows "canceled p n a (play_settles q ok w)"
  using assms
  by (auto simp: canceled_def play_settles_def startVideo_after_play_def reject_def fulfil_def
        stopStream_def Let_def nth_upd
      split: option.splits acquisition.splits)

lemma canceled_step:
  assumes "canceled p n a w" and "a = AwaitProbe n \<or> a = AwaitStream n v fm \<or> a = AwaitPlay n v s"
  shows "canceled p n a (step ev w)"
proof (cases ev)
  case (Call m)
  then show ?thesis
    using assms(1) promises_invoke [of p w m] video_nonce_invoke [of w m]
    by (auto simp: canceled_def step_def)
next
  case (MediaSettles q r)
  then show ?thesis
    using canceled_media_settles [OF assms] by (simp add: step_def)
next
  case (PlaySettles q ok)
  then show ?thesis
    using canceled_play_settles [OF assms] by (simp add: step_def)
next
  case (ControlsSettle t r)
  then show ?thesis
    using assms(1) by (simp add: canceled_def step_def)
next
  case (Frame t r e)
  then show ?thesis
    using assms(1) video_nonce_frame [of w t r e] by (auto simp: canceled_def step_def)
qed

lemma canceled_run:
  assumes "canceled p n a w" and "a = AwaitProbe n \<or> a = AwaitStream n v fm \<or> a = AwaitPlay n v s"
  shows "canceled p n a (run evs w)"
proof (induction evs rule: rev_induct)
  case Nil
  show ?case using assms(1) by (simp add: run_def)
next
  case (snoc ev evs)
  show ?case
    using canceled_step [OF snoc.IH assms(2)] by (simp add: run_snoc)
qed

lemma canceled_checkpoint:
  assumes "canceled p n a w" and "promises w ! p = a"
  shows "a = AwaitProbe n \<Longrightarrow> promises (step (MediaSettles p (Some k)) w) ! p
            = Rejected (ScanCanceled ''Canceled after stopping hypothetic previous scan'')"
    and "a = AwaitStream n v fm \<Longrightarrow> promises (step (MediaSettles p (Some k)) w) ! p
            = Rejected (ScanCanceled ''Canceled after creating new stream'')"
    and "a = AwaitPlay n v s \<Longrightarrow> promises (step (PlaySettles p True) w) ! p
            = Rejected (ScanCanceled ''Canceled while play stream instruction'')"
  using assms
  by (auto simp: canceled_def step_def media_settles_def play_settles_def
        startVideo_after_probe_def startVideo_after_stream_def startVideo_after_play_def
        reject_def stopStream_def Let_def)

lemma getVideoElement_pending:
  assumes "videoPromise w = Some p" and "video w = None" and "p < length (promises w)"
    and "pending (promises w ! p)"
  shows "getVideoElement k w = w\<lparr>calls := calls w @ [AwaitVideo k p]\<rparr>"
  using assms
  by (cases "promises w ! p")
     (simp_all add: getVideoElement_def spawn_def spawn_with_def await_videoPromise_def)

lemma startScan_pending:
  assumes "videoPromise w = Some p" and "video w = None" and "p < length (promises w)"
    and "pending (promises w ! p)"
  shows "promises (startScan opts w) = promises w \<and> streams (startScan opts w) = streams w
       \<and> calls (startScan opts w) = calls w @ [AwaitVideo StartScan p]"
proof -
  obtain w' where w': "startScan opts w = getVideoElement StartScan w'"
    "promises w' = promises w" "video w' = video w" "videoPromise w' = videoPromise w"
    "streams w' = streams w" "calls w' = calls w"
    using startScan_prep by blast
  have "getVideoElement StartScan w' = w'\<lparr>calls := calls w' @ [AwaitVideo StartScan p]\<rparr>"
    using assms by (intro getVideoElement_pending) (simp_all add: w')
  then show ?thesis
    by (simp add: w')
qed

section \<open>Cancellation of an acquisition\<close>

text \<open>
  Claim C1, evaluated on the run \<open>startScan({cameraDirection: BACK})\<close>, \<open>stopScan()\<close>,
  the first media request fulfils, \<open>startScan({cameraDirection: BACK})\<close>. The first
  \<open>startScan\<close> rejects with \<open>ScanCanceled\<close> and no track is live, as the claim says. The
  rejected promise stays in \<open>_videoPromise\<close>, so the second \<open>startScan\<close> awaits it and
  rejects with the same \<open>ScanCanceled\<close>, without starting an acquisition.
\<close>

theorem startScan_after_canceled_start_rejects:
  "calls (run [Call (M_startScan (Some \<lparr>targetedFormats = None, cameraDirection = Some BACK\<rparr>)),
               Call M_stopScan,
               MediaSettles 0 (Some 1),
               Call (M_startScan (Some \<lparr>targetedFormats = None, cameraDirection = Some BACK\<rparr>))]
          (initial True False [] False []))
     = [Threw (ScanCanceled ''Canceled after stopping hypothetic previous scan''),
        Returned Void,
        Threw (ScanCanceled ''Canceled after stopping hypothetic previous scan'')]
   \<and> promises (run [Call (M_startScan (Some \<lparr>targetedFormats = None, cameraDirection = Some BACK\<rparr>)),
               Call M_stopScan,
               MediaSettles 0 (Some 1),
               Call (M_startScan (Some \<lparr>targetedFormats = None, cameraDirection = Some BACK\<rparr>))]
          (initial True False [] False []))
     = [Rejected (ScanCanceled ''Canceled after stopping hypothetic previous scan'')]
   \<and> videoPromise (run [Call (M_startScan (Some \<lparr>targetedFormats = None, cameraDirection = Some BACK\<rparr>)),
               Call M_stopScan,
               MediaSettles 0 (Some 1)]
          (initial True False [] False [])) = Some 0
   \<and> live_tracks (run [Call (M_startScan (Some \<lparr>targetedFormats = None, cameraDirection = Some BACK\<rparr>)),
               Call M_stopScan,
               MediaSettles 0 (Some 1)]
          (initial True False [] False [])) = 0"
  by (simp add: eval_defs)

text \<open>
  Claim C2, evaluated on the run \<open>startScan()\<close>, both media requests fulfil,
  \<open>stopScan()\<close> while \<open>video.play()\<close> is pending, \<open>video.play()\<close> rejects. The
  acquisition ends on the rejection before its next comparison of the nonce; the element is
  not installed, but the track of the stream it holds stays live.
\<close>

theorem stop_during_play_then_rejection_leaves_stream_live:
  "calls (run [Call (M_startScan None), MediaSettles 0 (Some 1), MediaSettles 0 (Some 1),
               Call M_stopScan, PlaySettles 0 False]
          (initial True False [] False [])) = [Threw PlayRejected, Returned Void]
   \<and> streams (run [Call (M_startScan None), MediaSettles 0 (Some 1), MediaSettles 0 (Some 1),
               Call M_stopScan, PlaySettles 0 False]
          (initial True False [] False [])) = [[False], [True]]
   \<and> live_tracks (run [Call (M_startScan None), MediaSettles 0 (Some 1), MediaSettles 0 (Some 1),
               Call M_stopScan, PlaySettles 0 False]
          (initial True False [] False [])) = 1"
  by (simp add: eval_defs)

text \<open>
  Claim C3. \<open>stopScan\<close> adds exactly one to \<open>_video_nonce\<close>. Take an acquisition that is
  suspended at one of the three awaits of \<open>_startVideo\<close> with a captured nonce that is at
  most the nonce at the time of the call. After the call and any further calls and platform
  events, the acquisition is still suspended at that await or has been rejected (it never
  moves on to the next stage and is never fulfilled); and when it is still suspended and
  the awaited operation fulfils, it reaches its comparison of the nonce and is rejected with
  \<open>ScanCanceled\<close>.
\<close>

theorem stopScan_increments_nonce_and_cancels:
  "video_nonce (stopScan w) = video_nonce w + 1
   \<and> video_nonce (step (Call M_stopScan) w) = video_nonce w + 1
   \<and> (p < length (promises w) \<and> promises w ! p = a \<and> n \<le> video_nonce w
        \<and> (a = AwaitProbe n \<or> a = AwaitStream n v fm \<or> a = AwaitPlay n v s)
       \<longrightarrow>
         (promises (run evs (step (Call M_stopScan) w)) ! p = a
          \<or> (\<exists>e. promises (run evs (step (Call M_stopScan) w)) ! p = Rejected e))
       \<and> (promises (run evs (step (Call M_stopScan) w)) ! p = a \<longrightarrow>
            (\<exists>msg. promises
                 (step (case a of AwaitPlay _ _ _ \<Rightarrow> PlaySettles p True
                        | _ \<Rightarrow> MediaSettles p (Some k))
                    (run evs (step (Call M_stopScan) w))) ! p
               = Rejected (ScanCanceled msg))))"
proof -
  have 1: "video_nonce (step (Call M_stopScan) w) = video_nonce w + 1"
    by (simp add: step_def invoke_def spawn_def video_nonce_stopScan)
  {
    assume h: "p < length (promises w)" "promises w ! p = a" "n \<le> video_nonce w"
      and a: "a = AwaitProbe n \<or> a = AwaitStream n v fm \<or> a = AwaitPlay n v s"
    let ?w = "run evs (step (Call M_stopScan) w)"
    have "canceled p n a (step (Call M_stopScan) w)"
      using h 1 by (simp add: canceled_def) (simp add: step_def invoke_def spawn_def)
    then have c: "canceled p n a ?w"
      using a by (rule canceled_run)
    have "promises ?w ! p = a \<or> (\<exists>e. promises ?w ! p = Rejected e)"
      using c by (simp add: canceled_def)
    moreover have "promises ?w ! p = a \<longrightarrow>
            (\<exists>msg. promises
                 (step (case a of AwaitPlay _ _ _ \<Rightarrow> PlaySettles p True
                        | _ \<Rightarrow> MediaSettles p (Some k)) ?w) ! p
               = Rejected (ScanCanceled msg))"
      using a canceled_checkpoint [OF c] by auto
    ultimately have "(promises ?w ! p = a \<or> (\<exists>e. promises ?w ! p = Rejected e))
       \<and> (promises ?w ! p = a \<longrightarrow>
            (\<exists>msg. promises
                 (step (case a of AwaitPlay _ _ _ \<Rightarrow> PlaySettles p True
                        | _ \<Rightarrow> MediaSettles p (Some k)) ?w) ! p
               = Rejected (ScanCanceled msg)))"
      by blast
  }
  then show ?thesis
    using 1 by (simp add: video_nonce_stopScan)
qed

theorem stopScan_increments_nonce_and_cancels_witness:
  "promises (run [Call (M_startScan None)] (initial True False [] False [])) ! 0 = AwaitProbe 0
   \<and> video_nonce (step (Call M_stopScan)
         (run [Call (M_startScan None)] (initial True False [] False []))) = 1
   \<and> (\<exists>msg. promises (step (MediaSettles 0 (Some 1))
         (run [Call M_prepare] (step (Call M_stopScan)
            (run [Call (M_startScan None)] (initial True False [] False []))))) ! 0
       = Rejected (ScanCanceled msg))"
proof -
  let ?w = "run [Call (M_startScan None)] (initial True False [] False [])"
  have a: "0 < length (promises ?w)" "promises ?w ! 0 = AwaitProbe 0" "video_nonce ?w = 0"
    by (simp_all add: eval_defs)
  have b: "promises (run [Call M_prepare] (step (Call M_stopScan) ?w)) ! 0 = AwaitProbe 0"
    by (simp add: eval_defs)
  show ?thesis
    using stopScan_increments_nonce_and_cancels
            [where w = ?w and p = 0 and a = "AwaitProbe 0" and n = 0
               and evs = "[Call M_prepare]" and k = 1]
          a b
    by simp
qed

section \<open>Release of the camera on failure\<close>

text \<open>
  Claim C4, evaluated on the run \<open>startScan()\<close>, both media requests fulfil,
  \<open>video.play()\<close> rejects. \<open>startScan\<close> rejects and no element is in the document, but
  the track of the stream requested for the element stays live: nothing on this path calls
  \<open>stopStream\<close>.
\<close>

theorem play_rejection_leaves_stream_live:
  "calls (run [Call (M_startScan None), MediaSettles 0 (Some 1), MediaSettles 0 (Some 1),
               PlaySettles 0 False]
          (initial True False [] False [])) = [Threw PlayRejected]
   \<and> streams (run [Call (M_startScan None), MediaSettles 0 (Some 1), MediaSettles 0 (Some 1),
               PlaySettles 0 False]
          (initial True False [] False [])) = [[False], [True]]
   \<and> live_tracks (run [Call (M_startScan None), MediaSettles 0 (Some 1), MediaSettles 0 (Some 1),
               PlaySettles 0 False]
          (initial True False [] False [])) = 1
   \<and> body_videos (run [Call (M_startScan None), MediaSettles 0 (Some 1), MediaSettles 0 (Some 1),
               PlaySettles 0 False]
          (initial True False [] False [])) = []"
  by (simp add: eval_defs)

section \<open>One video surface\<close>

text \<open>
  Claim C5. In every state the session reaches from its initial state, by any sequence of
  calls of public members (among them every interleaving of \<open>prepare\<close>, \<open>startScan\<close>
  and \<open>resumeScanning\<close>) and platform events, the document holds at most one video
  element of the session. While an acquisition is pending it is the only pending one, and a
  call of \<open>prepare\<close>, \<open>startScan\<close> or \<open>resumeScanning\<close> then suspends on that same
  promise: it makes no new acquisition promise and requests no stream.
\<close>

theorem at_most_one_video_surface:
  assumes "w = run evs (initial md sf ks pv bg)"
  shows "length (body_videos w) \<le> 1
       \<and> (\<forall>p < length (promises w). pending (promises w ! p) \<longrightarrow>
            (\<forall>q < length (promises w). pending (promises w ! q) \<longrightarrow> q = p)
            \<and> promises (invoke M_prepare w) = promises w
            \<and> streams (invoke M_prepare w) = streams w
            \<and> calls (invoke M_prepare w) = calls w @ [AwaitVideo Prepare p]
            \<and> promises (invoke (M_startScan opts) w) = promises w
            \<and> streams (invoke (M_startScan opts) w) = streams w
            \<and> calls (invoke (M_startScan opts) w) = calls w @ [AwaitVideo StartScan p]
            \<and> promises (invoke M_resumeScanning w) = promises w
            \<and> streams (invoke M_resumeScanning w) = streams w
            \<and> calls (invoke M_resumeScanning w) = calls w @ [AwaitVideo ResumeScanning p])"
proof -
  have i: "session_inv w"
    unfolding assms by (rule inv_run) (rule inv_initial)
  have one: "length (body_videos w) \<le> 1"
    using i by (simp add: session_inv_def split: option.splits)
  {
    fix p assume p: "p < length (promises w)" "pending (promises w ! p)"
    note f = inv_pendingD [OF i p]
    have u: "\<forall>q < length (promises w). pending (promises w ! q) \<longrightarrow> q = p"
      using inv_pendingD(1) [OF i] f(1) by fastforce
    have g: "\<And>k. getVideoElement k w = w\<lparr>calls := calls w @ [AwaitVideo k p]\<rparr>"
      using f p by (intro getVideoElement_pending)
    have "(\<forall>q < length (promises w). pending (promises w ! q) \<longrightarrow> q = p)
            \<and> promises (invoke M_prepare w) = promises w
            \<and> streams (invoke M_prepare w) = streams w
            \<and> calls (invoke M_prepare w) = calls w @ [AwaitVideo Prepare p]
            \<and> promises (invoke (M_startScan opts) w) = promises w
            \<and> streams (invoke (M_startScan opts) w) = streams w
            \<and> calls (invoke (M_startScan opts) w) = calls w @ [AwaitVideo StartScan p]
            \<and> promises (invoke M_resumeScanning w) = promises w
            \<and> streams (invoke M_resumeScanning w) = streams w
            \<and> calls (invoke M_resumeScanning w) = calls w @ [AwaitVideo ResumeScanning p]"
      using u startScan_pending [OF f(1,2) p, of opts]
      by (simp add: invoke_def prepare_def resumeScanning_def g)
  }
  then show ?thesis
    using one by blast
qed

theorem at_most_one_video_surface_witness:
  "pending (promises (run [Call (M_startScan None)] (initial True False [] False [])) ! 0)
   \<and> calls (run [Call (M_startScan None), Call M_prepare] (initial True False [] False []))
       = [AwaitVideo StartScan 0, AwaitVideo Prepare 0]
   \<and> promises (run [Call (M_startScan None), Call M_prepare] (initial True False [] False []))
       = [AwaitProbe 0]
   \<and> length (body_videos scanning) \<le> 1
   \<and> body_videos scanning = [0]"
proof -
  let ?w = "run [Call (M_startScan None)] (initial True False [] False [])"
  have a: "0 < length (promises ?w)" "pending (promises ?w ! 0)"
    "calls ?w = [AwaitVideo StartScan 0]" "promises ?w = [AwaitProbe 0]"
    by (simp_all add: eval_defs)
  have b: "run [Call (M_startScan None), Call M_prepare] (initial True False [] False [])
           = invoke M_prepare ?w"
    by (simp add: run_def step_def)
  show ?thesis
    using at_most_one_video_surface [OF refl, of "[Call (M_startScan None)]" True False "[]" False "[]"]
      at_most_one_video_surface [OF scanning_def]
      a
    unfolding b
    by (auto simp: scanning_eq)
qed

section \<open>The decode session\<close>

text \<open>
  Claim C6. A frame callback that carries one of the three recoverable errors
  (\<open>NotFoundException\<close>, \<open>ChecksumException\<close>, \<open>FormatException\<close>) is ignored, in
  every state of the session and whether or not the controls have been assigned: it writes
  a line on the console and changes nothing else, so it settles no promise of any call, and
  taking it out of a sequence of callbacks does not change the scan promise. After any
  sequence of callbacks the scan promise is pending exactly when every callback carried a
  recoverable error. A callback resolves the promise exactly when it carries no error and a
  result whose text is not empty; it rejects exactly when it carries an error that is not
  recoverable, or no error and nothing to take a text from (no result, or a result whose
  text is empty). The promise of a \<open>startScan\<close> that is suspended on the scan promise
  follows the callbacks of that scan: after one callback it is still suspended when the
  callback ignored the frame, has returned the scan result when the callback resolved, and
  has thrown when it rejected; after any sequence of callbacks it is what the scan promise
  of that sequence is.
\<close>

theorem recoverable_frame_errors_never_settle:
  "(recoverable e \<longrightarrow>
      (\<exists>msg. callback r (Some e) = Ignore msg
             \<and> step (Frame sid r (Some e)) w = w\<lparr>console := console w @ [msg]\<rparr>)
      \<and> calls (step (Frame sid r (Some e)) w) = calls w
      \<and> scan_promise (evs @ (r, Some e) # evs') = scan_promise (evs @ evs'))
   \<and> (scan_promise fs = Pending \<longleftrightarrow> (\<forall>(r, er) \<in> set fs. \<exists>e. er = Some e \<and> recoverable e))
   \<and> (callback r er = Resolve x \<longleftrightarrow>
        er = None \<and> (\<exists>res. r = Some res \<and> getText res \<noteq> []
                        \<and> x = \<lparr>hasContent = True, content = getText res,
                                format = toString (getBarcodeFormat res)\<rparr>))
   \<and> (callback r er = Reject y \<longleftrightarrow>
        (\<exists>ex. er = Some ex \<and> \<not> recoverable ex \<and> y = EngineException ex)
        \<or> (er = None \<and> r = None \<and> y = Error ''Unexpectedly called with no error nor result'')
        \<or> (er = None \<and> (\<exists>res. r = Some res \<and> getText res = [])
             \<and> y = Error ''Unexpectedly called with no error nor text result''))
   \<and> (t < length (calls w) \<and> calls w ! t = AwaitResult StartScan sid \<longrightarrow>
        calls (step (Frame sid r er) w) ! t =
          (case callback r er of
             Ignore _ \<Rightarrow> AwaitResult StartScan sid
           | Resolve res \<Rightarrow> Returned (Scan res)
           | Reject ex \<Rightarrow> Threw ex)
        \<and> calls (run (map (\<lambda>(r, er). Frame sid r er) fs) w) ! t =
          (case scan_promise fs of
             Pending \<Rightarrow> AwaitResult StartScan sid
           | Resolved res \<Rightarrow> Returned (Scan res)
           | Failed ex \<Rightarrow> Threw ex))"
proof -
  have 0: "recoverable e \<longrightarrow>
      (\<exists>msg. callback r (Some e) = Ignore msg
             \<and> step (Frame sid r (Some e)) w = w\<lparr>console := console w @ [msg]\<rparr>)"
    by (simp add: callback_recoverable step_frame_recoverable)
  have 1: "callback r er = Resolve x \<longleftrightarrow>
        er = None \<and> (\<exists>res. r = Some res \<and> getText res \<noteq> []
                        \<and> x = \<lparr>hasContent = True, content = getText res,
                                format = toString (getBarcodeFormat res)\<rparr>)"
    by (auto simp: callback_def split: option.splits)
  have 2: "callback r er = Reject y \<longleftrightarrow>
        (\<exists>ex. er = Some ex \<and> \<not> recoverable ex \<and> y = EngineException ex)
        \<or> (er = None \<and> r = None \<and> y = Error ''Unexpectedly called with no error nor result'')
        \<or> (er = None \<and> (\<exists>res. r = Some res \<and> getText res = [])
             \<and> y = Error ''Unexpectedly called with no error nor text result'')"
    by (auto simp: callback_def split: option.splits)
  have 3: "t < length (calls w) \<and> calls w ! t = AwaitResult StartScan sid \<longrightarrow>
        calls (step (Frame sid r er) w) ! t =
          (case callback r er of
             Ignore _ \<Rightarrow> AwaitResult StartScan sid
           | Resolve res \<Rightarrow> Returned (Scan res)
           | Reject ex \<Rightarrow> Threw ex)"
    by (simp add: calls_frame settled_def returns_def split: settle.splits)
  have 4: "t < length (calls w) \<and> calls w ! t = AwaitResult StartScan sid \<longrightarrow>
        calls (run (map (\<lambda>(r, er). Frame sid r er) fs) w) ! t =
          (case scan_promise fs of
             Pending \<Rightarrow> AwaitResult StartScan sid
           | Resolved res \<Rightarrow> Returned (Scan res)
           | Failed ex \<Rightarrow> Threw ex)"
    using calls_frames_run [of t w sid fs] by blast
  have 5: "recoverable e \<longrightarrow> calls (step (Frame sid r (Some e)) w) = calls w
      \<and> scan_promise (evs @ (r, Some e) # evs') = scan_promise (evs @ evs')"
    by (simp add: calls_frame_recoverable scan_promise_drop)
  show ?thesis
    using 0 1 2 3 4 5 scan_promise_Pending_iff [of fs] by blast
qed

theorem recoverable_frame_errors_never_settle_witness:
  "recoverable NotFoundException
   \<and> calls scanning = [AwaitResult StartScan 0]
   \<and> calls (step (Frame 0 None (Some NotFoundException)) scanning) = [AwaitResult StartScan 0]
   \<and> calls (step (Frame 0 (Some \<lparr>getText = ''hello'', getBarcodeFormat = 11\<rparr>) None) scanning) ! 0
       = Returned (Scan \<lparr>hasContent = True, content = ''hello'', format = ''11''\<rparr>)
   \<and> calls starting = [AwaitResult StartScan 0]
   \<and> executors starting = [AwaitControls \<lparr>vid = 0, mirrored = True, inline_attrs = False,
                                            srcObject = Some 1\<rparr>]
   \<and> calls (step (Frame 0 None (Some NotFoundException)) starting) = [AwaitResult StartScan 0]
   \<and> calls (step (Frame 0 (Some \<lparr>getText = ''hello'', getBarcodeFormat = 11\<rparr>) None) starting) ! 0
       = Returned (Scan \<lparr>hasContent = True, content = ''hello'', format = ''11''\<rparr>)
   \<and> calls (run [Frame 0 None (Some NotFoundException), Frame 0 None (Some NotFoundException),
                  Frame 0 (Some \<lparr>getText = ''hello'', getBarcodeFormat = 11\<rparr>) None] starting) ! 0
       = Returned (Scan \<lparr>hasContent = True, content = ''hello'', format = ''11''\<rparr>)
   \<and> scan_promise [(None, Some NotFoundException), (None, Some NotFoundException),
                      (Some \<lparr>getText = ''hello'', getBarcodeFormat = 11\<rparr>, None)]
       = Resolved \<lparr>hasContent = True, content = ''hello'', format = ''11''\<rparr>
   \<and> scan_promise [(None, Some NotFoundException), (None, Some FormatException)] = Pending"
proof -
  let ?hello = "\<lparr>getText = ''hello'', getBarcodeFormat = 11\<rparr>"
  let ?res = "\<lparr>hasContent = True, content = ''hello'', format = ''11''\<rparr>"
  let ?fs = "[(None :: Result option, Some NotFoundException), (None, Some FormatException)]"
  let ?gs = "[(None, Some NotFoundException), (None, Some NotFoundException), (Some ?hello, None)]"
  have a: "recoverable NotFoundException" "recoverable FormatException"
    by (simp_all add: recoverable_def)
  have b: "toString 11 = ''11''"
    by code_simp
  have c: "callback (Some ?hello) None = Resolve ?res"
    by (simp add: callback_def b)
  have d: "scan_promise [(Some ?hello, None)] = Resolved ?res"
    by (simp add: scan_promise_def settle_promise_def c)
  have s: "0 < length (calls scanning) \<and> calls scanning ! 0 = AwaitResult StartScan 0"
    by (simp add: scanning_eq)
  have s': "0 < length (calls starting) \<and> calls starting ! 0 = AwaitResult StartScan 0"
    by (simp add: starting_eq)
  have p: "\<forall>(r, er) \<in> set ?fs. \<exists>e. er = Some e \<and> recoverable e"
    using a by simp
  note T1 = recoverable_frame_errors_never_settle
              [where e = NotFoundException and r = None and sid = 0 and t = 0 and w = scanning
                 and evs = "[(None, Some NotFoundException)]" and evs' = "[(Some ?hello, None)]"
                 and fs = ?fs and er = None and x = ?res and y = "Error []"]
  note T2 = recoverable_frame_errors_never_settle
              [where e = NotFoundException and r = None and sid = 0 and t = 0 and w = scanning
                 and evs = "[]" and evs' = "[(Some ?hello, None)]"
                 and fs = ?fs and er = None and x = ?res and y = "Error []"]
  note T3 = recoverable_frame_errors_never_settle
              [where e = NotFoundException and r = "Some ?hello" and sid = 0 and t = 0
                 and w = scanning and evs = "[]" and evs' = "[]"
                 and fs = ?fs and er = None and x = ?res and y = "Error []"]
  note T4 = recoverable_frame_errors_never_settle
              [where e = NotFoundException and r = None and sid = 0 and t = 0 and w = starting
                 and evs = "[]" and evs' = "[]"
                 and fs = ?gs and er = None and x = ?res and y = "Error []"]
  note T5 = recoverable_frame_errors_never_settle
              [where e = NotFoundException and r = "Some ?hello" and sid = 0 and t = 0
                 and w = starting and evs = "[]" and evs' = "[]"
                 and fs = ?gs and er = None and x = ?res and y = "Error []"]
  have g1: "calls (step (Frame 0 None (Some NotFoundException)) scanning) = calls scanning"
    using T1 a(1) by blast
  have g2: "scan_promise ([(None, Some NotFoundException)] @ (None, Some NotFoundException)
                # [(Some ?hello, None)])
            = scan_promise ([(None, Some NotFoundException)] @ [(Some ?hello, None)])"
    using T1 a(1) by blast
  have g3: "scan_promise ([] @ (None, Some NotFoundException) # [(Some ?hello, None)])
            = scan_promise ([] @ [(Some ?hello, None)])"
    using T2 a(1) by blast
  have g4: "scan_promise ?fs = Pending"
    using T1 p by blast
  have g5: "calls (step (Frame 0 (Some ?hello) None) scanning) ! 0 =
          (case callback (Some ?hello) None of
             Ignore _ \<Rightarrow> AwaitResult StartScan 0
           | Resolve res \<Rightarrow> Returned (Scan res)
           | Reject ex \<Rightarrow> Threw ex)"
    using T3 s by blast
  have g6: "calls (step (Frame 0 None (Some NotFoundException)) starting) = calls starting"
    using T4 a(1) by blast
  have g7: "calls (step (Frame 0 (Some ?hello) None) starting) ! 0 =
          (case callback (Some ?hello) None of
             Ignore _ \<Rightarrow> AwaitResult StartScan 0
           | Resolve res \<Rightarrow> Returned (Scan res)
           | Reject ex \<Rightarrow> Threw ex)"
    using T5 s' by blast
  have g8: "calls (run (map (\<lambda>(r, er). Frame 0 r er) ?gs) starting) ! 0 =
          (case scan_promise ?gs of
             Pending \<Rightarrow> AwaitResult StartScan 0
           | Resolved res \<Rightarrow> Returned (Scan res)
           | Failed ex \<Rightarrow> Threw ex)"
    using T4 s' by blast
  have g9: "scan_promise ?gs = Resolved ?res"
    using g2 g3 d by simp
  show ?thesis
    using a(1) g1 g4 g5 g6 g7 g8 g9 by (simp add: c scanning_eq starting_eq)
qed

section \<open>Format hints\<close>

text \<open>
  Claim C7, evaluated at \<open>targetedFormats = ["QR_CODE", "QR"]\<close> with the engine's enum:
  the unrecognised name \<open>QR\<close> is reported on the console and left out, and for the
  recognised name \<open>QR_CODE\<close>, whose enum value is 11, the hint list receives 0, the value
  of \<open>AZTEC\<close>.
\<close>

theorem startScan_hint_is_zero_for_QR_CODE:
  "formats (startScan (Some \<lparr>targetedFormats = Some [''QR_CODE'', ''QR''], cameraDirection = None\<rparr>)
              (initial True False (Object_keys BarcodeFormat) False [])) = [0]
   \<and> console (startScan (Some \<lparr>targetedFormats = Some [''QR_CODE'', ''QR''], cameraDirection = None\<rparr>)
              (initial True False (Object_keys BarcodeFormat) False []))
       = [''QR is not supported on web'']
   \<and> map_of BarcodeFormat ''QR_CODE'' = Some 11
   \<and> map_of BarcodeFormat ''AZTEC'' = Some 0"
  by (simp add: startScan_def push_format_def indexOf_BarcodeFormat getVideoElement_def
      spawn_def spawn_with_def initial_def Let_def)
     (simp add: BarcodeFormat_def)

section \<open>The torch\<close>

text \<open>
  Claim C8. In every session state where no decode control is active (\<open>_controls\<close> is
  null), a call of \<open>enableTorch\<close> or of \<open>disableTorch\<close> returns without throwing and
  changes nothing but the list of settled calls; in particular \<open>getTorchState().isEnabled\<close>
  is what it was before.
\<close>

theorem torch_noop_without_controls:
  assumes "controls w = None"
  shows "invoke M_enableTorch w = spawn (Returned Void) w
       \<and> invoke M_disableTorch w = spawn (Returned Void) w
       \<and> getTorchState (invoke M_enableTorch w) = getTorchState w
       \<and> getTorchState (invoke M_disableTorch w) = getTorchState w"
  using assms
  by (simp add: invoke_def enableTorch_def disableTorch_def torch_control_def
      getTorchState_def spawn_def)

theorem torch_noop_without_controls_witness:
  "controls (stopScan (enableTorch scanning)) = None
   \<and> isEnabled (getTorchState (stopScan (enableTorch scanning)))
   \<and> isEnabled (getTorchState (invoke M_disableTorch (stopScan (enableTorch scanning))))
   \<and> calls (invoke M_disableTorch (stopScan (enableTorch scanning)))
       = [AwaitResult StartScan 0, Returned Void]"
proof -
  have c: "controls (stopScan (enableTorch scanning)) = None"
    by (simp add: scanning_eq sync_defs Let_def)
  show ?thesis
    using torch_noop_without_controls [OF c]
    by (simp add: scanning_eq sync_defs Let_def)
qed

text \<open>
  Claim C9. In every session state where a decode control with the \<open>switchTorch\<close>
  member is active, \<open>toggleTorch\<close> asks that control to switch the torch on, whatever the
  torch was before (it changes nothing else, so it never switches the torch off), and the
  value reported by \<open>getTorchState().isEnabled\<close> stays what it was.
\<close>

theorem toggleTorch_only_switches_on:
  assumes "controls w = Some c" and "c < length (ctrls w)" and "has_switchTorch (ctrls w ! c)"
  shows "torch (ctrls (toggleTorch w) ! c)
       \<and> toggleTorch w = w\<lparr>ctrls := (ctrls w)[c := (ctrls w ! c)\<lparr>torch := True\<rparr>]\<rparr>
       \<and> getTorchState (toggleTorch w) = getTorchState w
       \<and> invoke M_toggleTorch w = spawn (Returned Void) (toggleTorch w)"
  using assms
  by (simp add: invoke_def toggleTorch_def torch_control_def switchTorch_def getTorchState_def)

theorem toggleTorch_only_switches_on_witness:
  "torch (ctrls (enableTorch scanning) ! 0)
   \<and> torch (ctrls (toggleTorch (enableTorch scanning)) ! 0)
   \<and> isEnabled (getTorchState (toggleTorch (enableTorch scanning)))
   \<and> \<not> torch (ctrls scanning ! 0)
   \<and> torch (ctrls (toggleTorch scanning) ! 0)
   \<and> \<not> isEnabled (getTorchState (toggleTorch scanning))"
proof -
  have a: "controls (enableTorch scanning) = Some 0" "0 < length (ctrls (enableTorch scanning))"
    "has_switchTorch (ctrls (enableTorch scanning) ! 0)"
    by (simp_all add: scanning_eq sync_defs)
  have b: "controls scanning = Some 0" "0 < length (ctrls scanning)"
    "has_switchTorch (ctrls scanning ! 0)"
    by (simp_all add: scanning_eq)
  show ?thesis
    using toggleTorch_only_switches_on [OF a] toggleTorch_only_switches_on [OF b]
    by (simp add: scanning_eq sync_defs)
qed

text \<open>
  Claim C10. \<open>stopScan\<close> and \<open>pauseScanning\<close> leave the cached flag \<open>_torchState\<close>
  alone. After \<open>enableTorch\<close> ran with an active torch-capable control,
  \<open>getTorchState().isEnabled\<close> is true, stays true after \<open>stopScan\<close> or
  \<open>pauseScanning\<close> dropped the control (a \<open>disableTorch\<close> then changes nothing), and
  stays true along every run of calls and platform events in which no \<open>disableTorch\<close>
  is called while a torch-capable control is active; such a \<open>disableTorch\<close> clears it.
\<close>

theorem torchState_survives_stop_and_pause:
  "torchState (stopScan w) = torchState w
   \<and> torchState (pauseScanning w) = torchState w
   \<and> (torch_control w \<noteq> None \<longrightarrow>
        isEnabled (getTorchState (enableTorch w))
        \<and> isEnabled (getTorchState (stopScan (enableTorch w)))
        \<and> isEnabled (getTorchState (pauseScanning (enableTorch w)))
        \<and> isEnabled (getTorchState (disableTorch (stopScan (enableTorch w))))
        \<and> isEnabled (getTorchState (disableTorch (pauseScanning (enableTorch w)))))
   \<and> (torchState w
        \<and> (\<forall>i < length evs. evs ! i = Call M_disableTorch
               \<longrightarrow> torch_control (run (take i evs) w) = None)
       \<longrightarrow> isEnabled (getTorchState (run evs w)))
   \<and> (torch_control w \<noteq> None \<longrightarrow> \<not> isEnabled (getTorchState (disableTorch w)))"
proof -
  have 1: "\<And>u. torchState (stopScan u) = torchState u"
    by (simp add: sync_defs Let_def split: option.splits)
  have 2: "\<And>u. torchState (pauseScanning u) = torchState u"
    by (simp add: sync_defs Let_def split: option.splits)
  have 3: "torch_control w \<noteq> None \<Longrightarrow> torchState (enableTorch w)"
    by (auto simp: enableTorch_def switchTorch_def)
  have 4: "\<And>u. controls u = None \<Longrightarrow> disableTorch u = u"
    by (simp add: disableTorch_def torch_control_def)
  have 5: "controls (stopScan (enableTorch w)) = None"
    by (simp add: sync_defs Let_def split: option.splits)
  have 6: "controls (pauseScanning (enableTorch w)) = None"
    by (simp add: sync_defs Let_def split: option.splits)
  have 7: "torch_control w \<noteq> None \<Longrightarrow> \<not> torchState (disableTorch w)"
    by (auto simp: disableTorch_def switchTorch_def)
  show ?thesis
    using 3 7 torchState_run [of evs w]
    by (simp add: 1 2 4 [OF 5] 4 [OF 6] getTorchState_def)
qed


theorem torchState_survives_stop_and_pause_witness:
  "torch_control scanning \<noteq> None
   \<and> isEnabled (getTorchState (stopScan (enableTorch scanning)))
   \<and> isEnabled (getTorchState (pauseScanning (enableTorch scanning)))
   \<and> isEnabled (getTorchState (disableTorch (stopScan (enableTorch scanning))))
   \<and> isEnabled (getTorchState (run [Call M_stopScan, Call M_disableTorch, Call (M_startScan None)]
                                  (enableTorch scanning)))
   \<and> \<not> isEnabled (getTorchState (disableTorch (enableTorch scanning)))"
proof -
  let ?evs = "[Call M_stopScan, Call M_disableTorch, Call (M_startScan None)]"
  have a: "torch_control scanning \<noteq> None"
    by (simp add: scanning_eq torch_control_def)
  have b: "torch_control (enableTorch scanning) \<noteq> None"
    by (simp add: scanning_eq sync_defs)
  have c: "torchState (enableTorch scanning)"
    by (simp add: scanning_eq sync_defs)
  have d: "torch_control (run [Call M_stopScan] (enableTorch scanning)) = None"
    by (simp add: scanning_eq run_def step_def invoke_def sync_defs Let_def)
  have e: "\<forall>i < length ?evs. ?evs ! i = Call M_disableTorch
             \<longrightarrow> torch_control (run (take i ?evs) (enableTorch scanning)) = None"
    using d by (auto simp: less_Suc_eq numeral_3_eq_3)
  show ?thesis
    using torchState_survives_stop_and_pause [of scanning "[]"]
      torchState_survives_stop_and_pause [of "enableTorch scanning" ?evs] a b c e
    by simp
qed

end
